theory Spec2Isabelle
  imports Main "HOL-Library.Multiset" "HOL-Library.Sublist"
begin

section \<open>Data model of \<open>src/App.tsx\<close>\<close>

text \<open>
  The component \<open>App\<close> keeps six pieces of React state and one ref. The types
  \<open>Client\<close> and the file records come from \<open>./types\<close>; the two services
  (\<open>googleDriveService\<close>, \<open>fileSearchService\<close>) are collaborators whose answers
  enter the model as arguments. JavaScript strings are modelled as \<open>string\<close>; only
  concatenation, equality and \<open>trim\<close> are used on them.
\<close>

datatype file_status = Pending | Syncing | Indexed | Error

text \<open>
  Modelled from the spec: the declaration of the remote file record in \<open>./types\<close>
  is missing; the spec gives a remote file the fields id and content.
\<close>

record remote_file =
  file_id :: string
  content :: string

text \<open>
  Modelled from the spec: the declaration of the synced file record in \<open>./types\<close>
  is missing; the spec gives it id, content, summary and status. The source builds one
  from a remote file by the spread \<open>{...df, summary: '...', status: 'syncing'}\<close>, so it
  is the remote file record extended by two fields.
\<close>

record synced_file = remote_file +
  summary :: string
  status :: file_status

text \<open>
  The fields of \<open>Client\<close> are those of the object literal in \<open>handleAddClient\<close>
  (lines 31-37).
\<close>

record client =
  client_id :: string
  name :: string
  files :: "synced_file list"
  apiKey :: string
  googleDriveFolderUrl :: "string option"

text \<open>The \<open>useState\<close> cells of lines 13-20.\<close>

record app_state =
  clients :: "client list"
  selectedClientId :: "string option"
  fileSearchApiKey :: string
  isGoogleDriveConnected :: bool
  isSyncing :: bool
  syncError :: "string option"

definition initial_state :: app_state where
  "initial_state =
     \<lparr>clients = [], selectedClientId = None, fileSearchApiKey = [],
      isGoogleDriveConnected = False, isSyncing = False, syncError = None\<rparr>"

text \<open>
  The values of one render that the closures \<open>syncAndPoll\<close> and \<open>handleSearch\<close>
  capture: \<open>selectedClient\<close> (line 51) and the two dependencies of line 115.
\<close>

record closure =
  selectedClient :: "client option"
  cl_isGoogleDriveConnected :: bool
  cl_fileSearchApiKey :: string

text \<open>What a collaborator throws: an \<open>Error\<close> instance with its message, or any other value.\<close>

datatype thrown = JsError string | NonError

section \<open>Strings\<close>

text \<open>
  \<open>String.prototype.trim\<close> removes white space and line terminators at both ends.
  Of these the 8-bit characters are tab, LF, VT, FF, CR, space and NBSP.
\<close>

definition js_whitespace :: "char \<Rightarrow> bool" where
  "js_whitespace c =
     (c = CHR 0x09 \<or> c = CHR 0x0A \<or> c = CHR 0x0B \<or> c = CHR 0x0C \<or>
      c = CHR 0x0D \<or> c = CHR 0x20 \<or> c = CHR 0xA0)"

definition trim :: "string \<Rightarrow> string" where
  "trim s = rev (dropWhile js_whitespace (rev (dropWhile js_whitespace s)))"

text \<open>Truthiness of a string (empty is falsy) and of \<open>string | null\<close>.\<close>

definition truthy :: "string \<Rightarrow> bool" where
  "truthy s = (s \<noteq> [])"

definition truthy_opt :: "string option \<Rightarrow> bool" where
  "truthy_opt u = (case u of None \<Rightarrow> False | Some s \<Rightarrow> truthy s)"

text \<open>
  The decimal numeral of a natural number, as the template literal of line 32 renders the
  integer \<open>Date.now()\<close> (whose values stay far below the \<open>1e21\<close> from which
  JavaScript switches to exponent notation).
\<close>

definition digit_char :: "nat \<Rightarrow> char" where
  "digit_char d = ''0123456789'' ! d"

fun show_nat :: "nat \<Rightarrow> string" where
  "show_nat n = (if n < 10 then [digit_char n] else show_nat (n div 10) @ [digit_char (n mod 10)])"

definition read_nat :: "string \<Rightarrow> nat" where
  "read_nat s = foldl (\<lambda>a c. 10 * a + (of_char c - 48)) 0 s"

section \<open>Registry operations\<close>

text \<open>
  \<open>handleAddClient\<close> (lines 29-41). The clock reading \<open>Date.now()\<close> and the value of
  \<open>crypto.randomUUID()\<close> are inputs.
\<close>

definition handleAddClient :: "string \<Rightarrow> nat \<Rightarrow> string \<Rightarrow> app_state \<Rightarrow> app_state" where
  "handleAddClient nm now uuid st =
     (if truthy (trim nm) then
        let newClient =
              \<lparr>client_id = ''client_'' @ show_nat now, name = nm, files = [],
               apiKey = ''key_'' @ uuid, googleDriveFolderUrl = None\<rparr>
        in st\<lparr>clients := clients st @ [newClient],
              selectedClientId := Some (client_id newClient)\<rparr>
      else st)"

text \<open>One add-client operation as data: name, clock reading, uuid.\<close>

type_synonym add_op = "string \<times> nat \<times> string"

definition add_clients :: "add_op list \<Rightarrow> app_state \<Rightarrow> app_state" where
  "add_clients ops st = foldl (\<lambda>s (nm, now, uuid). handleAddClient nm now uuid s) st ops"

definition effective :: "add_op \<Rightarrow> bool" where
  "effective op = (case op of (nm, now, uuid) \<Rightarrow> truthy (trim nm))"

definition op_time :: "add_op \<Rightarrow> nat" where
  "op_time op = (case op of (nm, now, uuid) \<Rightarrow> now)"

definition handleSelectClient :: "string \<Rightarrow> app_state \<Rightarrow> app_state" where
  "handleSelectClient i st = st\<lparr>selectedClientId := Some i\<rparr>"

definition handleSetFolderUrl :: "string \<Rightarrow> string \<Rightarrow> app_state \<Rightarrow> app_state" where
  "handleSetFolderUrl clientId url st =
     st\<lparr>clients :=
          map (\<lambda>c. if client_id c = clientId then c\<lparr>googleDriveFolderUrl := Some url\<rparr> else c)
            (clients st)\<rparr>"

text \<open>\<open>handleConnectGoogleDrive\<close> (lines 24-27); the answer of \<open>connect()\<close> is an input.\<close>

definition handleConnectGoogleDrive :: "bool \<Rightarrow> app_state \<Rightarrow> app_state" where
  "handleConnectGoogleDrive success st = st\<lparr>isGoogleDriveConnected := success\<rparr>"

definition setFileSearchApiKey :: "string \<Rightarrow> app_state \<Rightarrow> app_state" where
  "setFileSearchApiKey k st = st\<lparr>fileSearchApiKey := k\<rparr>"

text \<open>Line 51: \<open>clients.find(c => c.id === selectedClientId)\<close>; no id equals \<open>null\<close>.\<close>

definition find_selected :: "client list \<Rightarrow> string option \<Rightarrow> client option" where
  "find_selected cs sel =
     (case sel of None \<Rightarrow> None | Some i \<Rightarrow> List.find (\<lambda>c. client_id c = i) cs)"

definition capture :: "app_state \<Rightarrow> closure" where
  "capture st =
     \<lparr>selectedClient = find_selected (clients st) (selectedClientId st),
      cl_isGoogleDriveConnected = isGoogleDriveConnected st,
      cl_fileSearchApiKey = fileSearchApiKey st\<rparr>"

section \<open>Change detection\<close>

text \<open>Lines 75-76: \<open>files.map(f => f.id + f.content).join('')\<close>.\<close>

definition fingerprint :: "'a remote_file_scheme list \<Rightarrow> string" where
  "fingerprint fs = concat (map (\<lambda>f. file_id f @ content f) fs)"

text \<open>Line 78: \<open>currentContent !== newContent\<close>.\<close>

definition change_detected :: "synced_file list \<Rightarrow> remote_file list \<Rightarrow> bool" where
  "change_detected stored remote = (fingerprint stored \<noteq> fingerprint remote)"

text \<open>The sequence of (id, content) pairs of a snapshot.\<close>

definition id_content_pairs :: "'a remote_file_scheme list \<Rightarrow> (string \<times> string) list" where
  "id_content_pairs fs = map (\<lambda>f. (file_id f, content f)) fs"

text \<open>Line 82: \<open>{...df, summary: '...', status: 'syncing'}\<close>.\<close>

definition placeholder :: "remote_file \<Rightarrow> synced_file" where
  "placeholder df =
     \<lparr>file_id = file_id df, content = content df, summary = ''...'', status = Syncing\<rparr>"

text \<open>
  Lines 80-84 and 90: \<open>prev.map(c => c.id === selectedClient.id ? {...c, files: fs} : c)\<close>.
\<close>

definition replace_files :: "string \<Rightarrow> synced_file list \<Rightarrow> client list \<Rightarrow> client list" where
  "replace_files i fs prev = map (\<lambda>c. if client_id c = i then c\<lparr>files := fs\<rparr> else c) prev"

section \<open>One reconciliation cycle: \<open>syncAndPoll\<close>\<close>

text \<open>
  \<open>syncAndPoll\<close> (lines 60-101) is an async function with two suspension points, the
  \<open>await\<close> of line 72 and the one of line 87. Between them other handlers may run, so the
  cycle is three steps on the state; each takes the state as it is when the step runs
  (the functional updates \<open>setClients(prev => ...)\<close> read the current registry) and the
  values captured by the closure. A suspended cycle is a value of \<open>pending\<close>, holding the
  captured \<open>selectedClient\<close> and \<open>fileSearchApiKey\<close>.
\<close>

datatype pending =
    AwaitFetch client string
  | AwaitSync client string "remote_file list"

text \<open>Line 61.\<close>

definition activation_guard :: "closure \<Rightarrow> bool" where
  "activation_guard cl =
     (case selectedClient cl of
        None \<Rightarrow> False
      | Some sc \<Rightarrow>
          truthy_opt (googleDriveFolderUrl sc) \<and> cl_isGoogleDriveConnected cl \<and>
          truthy (trim (cl_fileSearchApiKey cl)))"

text \<open>Line 97.\<close>

definition error_message :: "thrown \<Rightarrow> string" where
  "error_message e =
     (case e of JsError m \<Rightarrow> m | NonError \<Rightarrow> ''An unknown error occurred during sync.'')"

text \<open>Lines 95-100: the \<open>catch\<close> and \<open>finally\<close> blocks.\<close>

definition sync_failed :: "thrown \<Rightarrow> app_state \<Rightarrow> app_state" where
  "sync_failed e st = st\<lparr>syncError := Some (error_message e), isSyncing := False\<rparr>"

text \<open>Lines 61-72, up to the call of \<open>getFilesFromFolder\<close>.\<close>

definition syncAndPoll_start :: "closure \<Rightarrow> app_state \<Rightarrow> app_state \<times> pending option" where
  "syncAndPoll_start cl st =
     (case selectedClient cl of
        None \<Rightarrow> (st\<lparr>isSyncing := False\<rparr>, None)
      | Some sc \<Rightarrow>
          if \<not> activation_guard cl then (st\<lparr>isSyncing := False\<rparr>, None)
          else (st\<lparr>isSyncing := True, syncError := None\<rparr>,
                Some (AwaitFetch sc (cl_fileSearchApiKey cl))))"

text \<open>Lines 72-87, from the answer of \<open>getFilesFromFolder\<close> to the call of \<open>syncClientFiles\<close>.\<close>

definition syncAndPoll_fetched ::
  "client \<Rightarrow> string \<Rightarrow> thrown + remote_file list \<Rightarrow> app_state \<Rightarrow> app_state \<times> pending option" where
  "syncAndPoll_fetched sc key res st =
     (case res of
        Inl e \<Rightarrow> (sync_failed e st, None)
      | Inr driveFiles \<Rightarrow>
          if change_detected (files sc) driveFiles then
            (st\<lparr>clients := replace_files (client_id sc) (map placeholder driveFiles) (clients st)\<rparr>,
             Some (AwaitSync sc key driveFiles))
          else (st\<lparr>isSyncing := False\<rparr>, None))"

text \<open>Lines 87-100, from the answer of \<open>syncClientFiles\<close> to the end.\<close>

definition syncAndPoll_synced ::
  "client \<Rightarrow> string \<Rightarrow> remote_file list \<Rightarrow> thrown + synced_file list \<Rightarrow> app_state \<Rightarrow> app_state" where
  "syncAndPoll_synced sc key driveFiles res st =
     (case res of
        Inl e \<Rightarrow> sync_failed e st
      | Inr indexedFiles \<Rightarrow>
          st\<lparr>clients := replace_files (client_id sc) indexedFiles (clients st),
             isSyncing := False\<rparr>)"

text \<open>Resuming a suspended cycle with the collaborator's answer.\<close>

definition resume_cycle ::
  "pending \<Rightarrow> thrown + remote_file list \<Rightarrow> thrown + synced_file list \<Rightarrow> app_state \<Rightarrow>
     app_state \<times> pending option" where
  "resume_cycle p fetch_res sync_res st =
     (case p of
        AwaitFetch sc key \<Rightarrow> syncAndPoll_fetched sc key fetch_res st
      | AwaitSync sc key driveFiles \<Rightarrow> (syncAndPoll_synced sc key driveFiles sync_res st, None))"

text \<open>
  A cycle that runs from start to end with no other handler in between; the two
  collaborators' answers are given (the second is read only when the call is made).
\<close>

definition run_cycle ::
  "closure \<Rightarrow> thrown + remote_file list \<Rightarrow> thrown + synced_file list \<Rightarrow> app_state \<Rightarrow> app_state" where
  "run_cycle cl fetch_res sync_res st =
     (case syncAndPoll_start cl st of
        (st1, None) \<Rightarrow> st1
      | (st1, Some p1) \<Rightarrow>
          (case resume_cycle p1 fetch_res sync_res st1 of
             (st2, None) \<Rightarrow> st2
           | (st2, Some p2) \<Rightarrow> fst (resume_cycle p2 fetch_res sync_res st2)))"

section \<open>The scheduler: the effect of lines 54-115\<close>

text \<open>
  The effect clears the interval held by \<open>pollingIntervalRef\<close>, and when a client with a
  folder is selected it calls \<open>syncAndPoll\<close> once and arms an interval that calls the same
  closure every 5 seconds. The run-time state is the React state, the closure of the armed
  interval (if any) and the cycles that are suspended at an \<open>await\<close>.
\<close>

record runtime =
  app :: app_state
  timer :: "closure option"
  inflight :: "pending list"

definition start_cycle :: "closure \<Rightarrow> runtime \<Rightarrow> runtime" where
  "start_cycle cl rt =
     (case syncAndPoll_start cl (app rt) of
        (st', None) \<Rightarrow> rt\<lparr>app := st'\<rparr>
      | (st', Some p) \<Rightarrow> rt\<lparr>app := st', inflight := inflight rt @ [p]\<rparr>)"

text \<open>The interval fires: \<open>window.setInterval(syncAndPoll, 5000)\<close>, line 106.\<close>

definition tick :: "runtime \<Rightarrow> runtime" where
  "tick rt = (case timer rt of None \<Rightarrow> rt | Some cl \<Rightarrow> start_cycle cl rt)"

text \<open>The effect body, lines 55-107, run with the values of the current render.\<close>

definition run_effect :: "runtime \<Rightarrow> runtime" where
  "run_effect rt =
     (let cl = capture (app rt); rt0 = rt\<lparr>timer := None\<rparr> in
      case selectedClient cl of
        None \<Rightarrow> rt0
      | Some sc \<Rightarrow>
          if truthy_opt (googleDriveFolderUrl sc) then (start_cycle cl rt0)\<lparr>timer := Some cl\<rparr>
          else rt0)"

text \<open>The client a suspended cycle works for.\<close>

definition target_of :: "pending \<Rightarrow> string" where
  "target_of p = (case p of AwaitFetch sc key \<Rightarrow> client_id sc | AwaitSync sc key dfs \<Rightarrow> client_id sc)"

section \<open>The query gateway: \<open>handleSearch\<close>\<close>

text \<open>
  Lines 117-120. The collaborator's \<open>query\<close> is a parameter; it answers with a string or
  throws.
\<close>

definition handleSearch ::
  "(client \<Rightarrow> string \<Rightarrow> string \<Rightarrow> thrown + string) \<Rightarrow> closure \<Rightarrow> string \<Rightarrow> thrown + string" where
  "handleSearch index_query cl query =
     (case selectedClient cl of
        None \<Rightarrow> Inr ''No client selected.''
      | Some sc \<Rightarrow> index_query sc query (cl_fileSearchApiKey cl))"

section \<open>Example values\<close>

text \<open>
  A state reached by the handlers: one client added at clock reading 5, Drive connected,
  a credential entered and a folder set for the client.
\<close>

definition demo_state :: app_state where
  "demo_state =
     handleSetFolderUrl ''client_5'' ''folder''
       (setFileSearchApiKey ''k''
         (handleConnectGoogleDrive True (handleAddClient ''acme'' 5 ''u1'' initial_state)))"

definition demo_client :: client where
  "demo_client =
     \<lparr>client_id = ''client_5'', name = ''acme'', files = [], apiKey = ''key_u1'',
      googleDriveFolderUrl = Some ''folder''\<rparr>"

text \<open>The remote snapshot of the spec's ordering example and what the index returns for it.\<close>

definition demo_remote :: "remote_file list" where
  "demo_remote = [\<lparr>file_id = ''1'', content = ''a''\<rparr>, \<lparr>file_id = ''2'', content = ''b''\<rparr>]"

definition demo_indexed :: "synced_file list" where
  "demo_indexed =
     [\<lparr>file_id = ''1'', content = ''a'', summary = ''s1'', status = Indexed\<rparr>,
      \<lparr>file_id = ''2'', content = ''b'', summary = ''s2'', status = Indexed\<rparr>]"

text \<open>The state after one complete cycle on \<open>demo_state\<close>.\<close>

definition demo_synced_state :: app_state where
  "demo_synced_state = run_cycle (capture demo_state) (Inr demo_remote) (Inr demo_indexed) demo_state"

text \<open>
  A cycle for \<open>client_5\<close> that is overtaken: it starts on \<open>demo_state\<close>, the listing
  answers, the placeholders are applied; then a second client is added at clock reading
  7, which makes it the selected one (line 39); then the index answers.
\<close>

definition stale_before :: app_state where
  "stale_before =
     handleAddClient ''beta'' 7 ''u2''
       (fst (syncAndPoll_fetched demo_client ''k'' (Inr demo_remote)
         (fst (syncAndPoll_start (capture demo_state) demo_state))))"

definition stale_after :: app_state where
  "stale_after = syncAndPoll_synced demo_client ''k'' demo_remote (Inr demo_indexed) stale_before"

definition demo_runtime :: runtime where
  "demo_runtime = \<lparr>app = demo_state, timer = None, inflight = []\<rparr>"

text \<open>Two snapshots with different (id, content) pairs and one concatenation.\<close>

definition collide_stored :: "synced_file list" where
  "collide_stored = [\<lparr>file_id = ''a'', content = ''bc'', summary = ''s'', status = Indexed\<rparr>]"

definition collide_remote :: "remote_file list" where
  "collide_remote = [\<lparr>file_id = ''ab'', content = ''c''\<rparr>]"

definition collide_state :: app_state where
  "collide_state =
     run_cycle (capture demo_state) (Inr [\<lparr>file_id = ''a'', content = ''bc''\<rparr>])
       (Inr collide_stored) demo_state"

text \<open>Two files in two orders with one concatenation.\<close>

definition reorder_stored :: "synced_file list" where
  "reorder_stored =
     [\<lparr>file_id = ''a'', content = ''ba'', summary = ''s1'', status = Indexed\<rparr>,
      \<lparr>file_id = ''ab'', content = ''a'', summary = ''s2'', status = Indexed\<rparr>]"

definition reorder_remote :: "remote_file list" where
  "reorder_remote = [\<lparr>file_id = ''ab'', content = ''a''\<rparr>, \<lparr>file_id = ''a'', content = ''ba''\<rparr>]"

text \<open>
  Three files of which the last two are swapped; their id+content strings \<open>1a\<close> and
  \<open>2bb\<close> have different lengths.
\<close>

definition swapped_stored :: "synced_file list" where
  "swapped_stored =
     [\<lparr>file_id = ''0'', content = ''x'', summary = ''s0'', status = Indexed\<rparr>,
      \<lparr>file_id = ''1'', content = ''a'', summary = ''s1'', status = Indexed\<rparr>,
      \<lparr>file_id = ''2'', content = ''bb'', summary = ''s2'', status = Indexed\<rparr>]"

definition swapped_remote :: "remote_file list" where
  "swapped_remote =
     [\<lparr>file_id = ''0'', content = ''x''\<rparr>, \<lparr>file_id = ''2'', content = ''bb''\<rparr>,
      \<lparr>file_id = ''1'', content = ''a''\<rparr>]"

text \<open>A collaborator query used as an example: it answers with the client's name and the text.\<close>

definition demo_query :: "client \<Rightarrow> string \<Rightarrow> string \<Rightarrow> thrown + string" where
  "demo_query c text key = Inr (name c @ '': '' @ text)"

section \<open>Properties\<close>

declare show_nat.simps [simp del]

subsection \<open>Decimal numerals\<close>

lemma show_nat_digit: "show_nat 5 = ''5''" "show_nat 7 = ''7''"
  by (simp_all add: show_nat.simps [of 5] show_nat.simps [of 7] digit_char_def)

lemma of_char_digit: "d < 10 \<Longrightarrow> of_char (digit_char d) = (48 + d :: nat)"
proof -
  assume "d < 10"
  then have "d \<in> {0, 1, 2, 3, 4, 5, 6, 7, 8, 9}" by auto
  then show ?thesis by (auto simp: digit_char_def)
qed

lemma read_nat_snoc: "read_nat (s @ [c]) = 10 * read_nat s + (of_char c - 48)"
  by (simp add: read_nat_def)

lemma read_show_nat: "read_nat (show_nat n) = n"
proof (induction n rule: show_nat.induct)
  case (1 n)
  show ?case
  proof (cases "n < 10")
    case True
    then show ?thesis by (simp add: show_nat.simps [of n] read_nat_def of_char_digit)
  next
    case False
    with 1 show ?thesis
      by (simp add: show_nat.simps [of n] read_nat_snoc of_char_digit)
  qed
qed

lemma show_nat_inj: "show_nat a = show_nat b \<longleftrightarrow> a = b"
  by (metis read_show_nat)

subsection \<open>The example state\<close>

lemma trim_demo: "trim ''acme'' = ''acme''" "trim ''k'' = ''k''" "trim ''beta'' = ''beta''"
  by (simp_all add: trim_def js_whitespace_def)

lemma demo_state_eq:
  "demo_state =
     \<lparr>clients = [demo_client], selectedClientId = Some ''client_5'', fileSearchApiKey = ''k'',
      isGoogleDriveConnected = True, isSyncing = False, syncError = None\<rparr>"
  by (simp add: demo_state_def demo_client_def handleSetFolderUrl_def setFileSearchApiKey_def
      handleConnectGoogleDrive_def handleAddClient_def initial_state_def show_nat_digit trim_demo
      truthy_def)

lemma demo_clients: "clients demo_state = [demo_client]"
  by (simp add: demo_state_eq)

lemma demo_capture:
  "capture demo_state =
     \<lparr>selectedClient = Some demo_client, cl_isGoogleDriveConnected = True,
      cl_fileSearchApiKey = ''k''\<rparr>"
  by (simp add: demo_state_eq capture_def find_selected_def demo_client_def)

lemma demo_guard: "activation_guard (capture demo_state)"
  by (simp add: demo_capture activation_guard_def demo_client_def truthy_opt_def truthy_def trim_demo)

lemma demo_changed: "change_detected (files demo_client) demo_remote"
  by (simp add: change_detected_def fingerprint_def demo_client_def demo_remote_def)

subsection \<open>Registry updates and the captured client\<close>

lemma find_selected_replace:
  "find_selected (replace_files i fs cs) sel =
     map_option (\<lambda>c. if client_id c = i then c\<lparr>files := fs\<rparr> else c) (find_selected cs sel)"
proof (cases sel)
  case None
  then show ?thesis by (simp add: find_selected_def)
next
  case (Some j)
  have "List.find (\<lambda>c. client_id c = j) (replace_files i fs cs) =
        map_option (\<lambda>c. if client_id c = i then c\<lparr>files := fs\<rparr> else c)
          (List.find (\<lambda>c. client_id c = j) cs)"
    by (induction cs) (auto simp: replace_files_def)
  with Some show ?thesis by (simp add: find_selected_def)
qed

lemma selected_after_replace:
  assumes "selectedClient (capture st) = Some sc"
  shows "find_selected (replace_files (client_id sc) fs (clients st)) (selectedClientId st) =
           Some (sc\<lparr>files := fs\<rparr>)"
  using assms by (simp add: find_selected_replace capture_def)

lemma replace_files_twice:
  "replace_files i fs (replace_files i gs cs) = replace_files i fs cs"
  by (induction cs) (auto simp: replace_files_def)

lemma fingerprint_placeholder: "fingerprint (map placeholder R) = fingerprint R"
  by (simp add: fingerprint_def placeholder_def comp_def)

lemma placeholders_differ:
  assumes "change_detected stored R"
  shows "map placeholder R \<noteq> stored"
proof
  assume "map placeholder R = stored"
  then have "fingerprint stored = fingerprint (map placeholder R)" by simp
  with assms show False by (simp add: change_detected_def fingerprint_placeholder)
qed

subsection \<open>The uninterrupted cycle, case by case\<close>

lemma run_cycle_fetched:
  assumes "activation_guard cl" "selectedClient cl = Some sc"
  shows "run_cycle cl (Inr R) sres st =
     (if change_detected (files sc) R
      then syncAndPoll_synced sc (cl_fileSearchApiKey cl) R sres
             (st\<lparr>isSyncing := True, syncError := None,
                 clients := replace_files (client_id sc) (map placeholder R) (clients st)\<rparr>)
      else st\<lparr>isSyncing := False, syncError := None\<rparr>)"
  using assms
  by (simp add: run_cycle_def syncAndPoll_start_def resume_cycle_def syncAndPoll_fetched_def)

lemma run_cycle_fetch_failed:
  assumes "activation_guard cl"
  shows "run_cycle cl (Inl e) sres st = st\<lparr>isSyncing := False, syncError := Some (error_message e)\<rparr>"
  using assms
  by (auto simp: run_cycle_def syncAndPoll_start_def resume_cycle_def syncAndPoll_fetched_def
      sync_failed_def activation_guard_def split: option.splits)

lemma guard_selected: "activation_guard cl \<Longrightarrow> \<exists>sc. selectedClient cl = Some sc"
  by (auto simp: activation_guard_def split: option.splits)

section \<open>The start of a cycle\<close>

text \<open>
  C10. A cycle that passes the activation guard sets \<open>syncError\<close> to null (and
  \<open>isSyncing\<close> to true) before the remote fetch is answered: the state after the first
  step has no error, whatever error the state before held, and the cycle is suspended
  at the fetch.
\<close>

theorem start_clears_error:
  assumes "activation_guard cl"
  shows "\<exists>sc. selectedClient cl = Some sc \<and>
           syncAndPoll_start cl st =
             (st\<lparr>isSyncing := True, syncError := None\<rparr>,
              Some (AwaitFetch sc (cl_fileSearchApiKey cl))) \<and>
           syncError (fst (syncAndPoll_start cl st)) = None"
  using assms
  by (auto simp: activation_guard_def syncAndPoll_start_def split: option.splits)

theorem start_clears_error_witness:
  "activation_guard (capture (demo_state\<lparr>syncError := Some ''quota exceeded''\<rparr>)) \<and>
   syncAndPoll_start (capture (demo_state\<lparr>syncError := Some ''quota exceeded''\<rparr>))
       (demo_state\<lparr>syncError := Some ''quota exceeded''\<rparr>) =
     (demo_state\<lparr>syncError := None, isSyncing := True\<rparr>, Some (AwaitFetch demo_client ''k''))"
proof -
  have c: "capture (demo_state\<lparr>syncError := Some ''quota exceeded''\<rparr>) = capture demo_state"
    by (simp add: capture_def)
  have g: "activation_guard (capture (demo_state\<lparr>syncError := Some ''quota exceeded''\<rparr>))"
    by (simp add: c demo_guard)
  from start_clears_error [OF g, of "demo_state\<lparr>syncError := Some ''quota exceeded''\<rparr>"] g
  show ?thesis by (simp add: c demo_capture)
qed

section \<open>Failures of the collaborators\<close>

text \<open>
  C6. When the remote listing fails in a cycle that passed the guard, the cycle ends with
  \<open>syncError\<close> set to the message of the failure and \<open>isSyncing\<close> cleared, and the
  registry is exactly what it was before the cycle: no client's files and no file's
  status change. The last conjunct says the same of the resumed step alone, on whatever
  state it finds when the listing fails.
\<close>

theorem fetch_failure_no_mutation:
  assumes "activation_guard cl"
  shows "clients (run_cycle cl (Inl e) sres st) = clients st \<and>
         syncError (run_cycle cl (Inl e) sres st) = Some (error_message e) \<and>
         isSyncing (run_cycle cl (Inl e) sres st) = False \<and>
         clients (fst (syncAndPoll_fetched sc key (Inl e) st')) = clients st'"
  using assms by (simp add: run_cycle_fetch_failed syncAndPoll_fetched_def sync_failed_def)

theorem fetch_failure_no_mutation_witness:
  "activation_guard (capture demo_state) \<and>
   clients (run_cycle (capture demo_state) (Inl (JsError ''offline'')) (Inr demo_indexed) demo_state)
     = [demo_client] \<and>
   syncError (run_cycle (capture demo_state) (Inl (JsError ''offline'')) (Inr demo_indexed) demo_state)
     = Some ''offline''"
proof -
  note t = fetch_failure_no_mutation [OF demo_guard, of "JsError ''offline''" "Inr demo_indexed"
      demo_state demo_client "''k''" demo_state]
  have c: "clients demo_state = [demo_client]" by (simp add: demo_state_eq)
  from t c demo_guard show ?thesis by (simp add: error_message_def)
qed



section \<open>Unchanged snapshots\<close>

lemma capture_after_replace:
  assumes "selectedClient (capture st) = Some sc"
  shows "capture (st\<lparr>isSyncing := a, syncError := b,
            clients := replace_files (client_id sc) fs (clients st)\<rparr>) =
         (capture st)\<lparr>selectedClient := Some (sc\<lparr>files := fs\<rparr>)\<rparr>"
  using selected_after_replace [OF assms, of fs] by (simp add: capture_def)

lemma capture_status: "capture (st\<lparr>isSyncing := a, syncError := b\<rparr>) = capture st"
  by (simp add: capture_def)

lemma guard_files:
  assumes "activation_guard cl" "selectedClient cl = Some sc"
  shows "activation_guard (cl\<lparr>selectedClient := Some (sc\<lparr>files := fs\<rparr>)\<rparr>)"
  using assms by (simp add: activation_guard_def)

lemma second_cycle_unchanged:
  assumes g: "activation_guard (capture st)"
    and c: "\<forall>indexedFiles. sres = Inr indexedFiles \<longrightarrow> fingerprint indexedFiles = fingerprint R"
  shows "clients (run_cycle (capture (run_cycle (capture st) (Inr R) sres st)) (Inr R) sres'
                   (run_cycle (capture st) (Inr R) sres st)) =
         clients (run_cycle (capture st) (Inr R) sres st)"
proof -
  from g obtain sc where sc: "selectedClient (capture st) = Some sc"
    using guard_selected by blast
  let ?st1 = "run_cycle (capture st) (Inr R) sres st"
  show ?thesis
  proof (cases "change_detected (files sc) R")
    case False
    then have st1: "?st1 = st\<lparr>isSyncing := False, syncError := None\<rparr>"
      using g sc by (simp add: run_cycle_fetched)
    have "clients (run_cycle (capture st) (Inr R) sres' (st\<lparr>isSyncing := False, syncError := None\<rparr>))
        = clients st"
      using g sc False by (simp add: run_cycle_fetched)
    then show ?thesis by (simp add: st1 capture_status)
  next
    case True
    have "\<exists>fs. ?st1 = st\<lparr>isSyncing := False, syncError := syncError ?st1,
        clients := replace_files (client_id sc) fs (clients st)\<rparr> \<and> fingerprint fs = fingerprint R"
    proof (cases sres)
      case (Inl e)
      with g sc True show ?thesis
        by (intro exI [of _ "map placeholder R"])
          (simp add: run_cycle_fetched syncAndPoll_synced_def sync_failed_def fingerprint_placeholder)
    next
      case (Inr indexedFiles)
      with c have "fingerprint indexedFiles = fingerprint R" by simp
      with g sc True Inr show ?thesis
        by (intro exI [of _ indexedFiles])
          (simp add: run_cycle_fetched syncAndPoll_synced_def replace_files_twice)
    qed
    then obtain fs where st1: "?st1 = st\<lparr>isSyncing := False, syncError := syncError ?st1,
        clients := replace_files (client_id sc) fs (clients st)\<rparr>"
      and fp: "fingerprint fs = fingerprint R" by blast
    have cap: "capture ?st1 = (capture st)\<lparr>selectedClient := Some (sc\<lparr>files := fs\<rparr>)\<rparr>"
      by (subst st1) (rule capture_after_replace [OF sc])
    have g1: "activation_guard (capture ?st1)"
      unfolding cap by (rule guard_files [OF g sc])
    have s1: "selectedClient (capture ?st1) = Some (sc\<lparr>files := fs\<rparr>)"
      by (simp add: cap)
    have "\<not> change_detected (files (sc\<lparr>files := fs\<rparr>)) R"
      using fp by (simp add: change_detected_def)
    then show ?thesis
      by (simp add: run_cycle_fetched [OF g1 s1])
  qed
qed

text \<open>
  C7. If the fetched snapshot has the fingerprint of the captured client's files, the cycle
  leaves the registry as it is (first conjunct; also for the resumed step on any state).
  Two consecutive cycles that see the same remote snapshot \<open>R\<close>: the second leaves the
  registry as the first left it, whether the first detected no change, failed at the
  index, or committed what the index collaborator returned; for the last case the
  collaborator is taken to return records with the fingerprint of the files it was
  given. An empty stored sequence against an empty snapshot is no change.
\<close>

theorem unchanged_snapshot_no_mutation:
  "(activation_guard cl \<and> selectedClient cl = Some sc \<and>
      fingerprint (files sc) = fingerprint R \<longrightarrow>
        clients (run_cycle cl (Inr R) sres st) = clients st \<and>
        syncAndPoll_fetched sc key (Inr R) st = (st\<lparr>isSyncing := False\<rparr>, None)) \<and>
   (activation_guard (capture st) \<and>
      (\<forall>indexedFiles. sres = Inr indexedFiles \<longrightarrow> fingerprint indexedFiles = fingerprint R) \<longrightarrow>
        clients (run_cycle (capture (run_cycle (capture st) (Inr R) sres st)) (Inr R) sres'
                   (run_cycle (capture st) (Inr R) sres st)) =
        clients (run_cycle (capture st) (Inr R) sres st)) \<and>
   \<not> change_detected [] []"
proof (intro conjI impI)
  assume a: "activation_guard cl \<and> selectedClient cl = Some sc \<and>
      fingerprint (files sc) = fingerprint R"
  then show "clients (run_cycle cl (Inr R) sres st) = clients st"
    by (simp add: run_cycle_fetched change_detected_def)
  from a show "syncAndPoll_fetched sc key (Inr R) st = (st\<lparr>isSyncing := False\<rparr>, None)"
    by (simp add: syncAndPoll_fetched_def change_detected_def)
next
  show "\<not> change_detected [] []"
    by (simp add: change_detected_def fingerprint_def)
next
  assume "activation_guard (capture st) \<and>
      (\<forall>indexedFiles. sres = Inr indexedFiles \<longrightarrow> fingerprint indexedFiles = fingerprint R)"
  then show "clients (run_cycle (capture (run_cycle (capture st) (Inr R) sres st)) (Inr R) sres'
                   (run_cycle (capture st) (Inr R) sres st)) =
        clients (run_cycle (capture st) (Inr R) sres st)"
    using second_cycle_unchanged by blast
qed

lemma demo_synced_eq:
  "demo_synced_state =
     \<lparr>clients = [demo_client\<lparr>files := demo_indexed\<rparr>], selectedClientId = Some ''client_5'',
      fileSearchApiKey = ''k'', isGoogleDriveConnected = True, isSyncing = False,
      syncError = None\<rparr>"
proof -
  have s: "selectedClient (capture demo_state) = Some demo_client" by (simp add: demo_capture)
  have "demo_synced_state =
      demo_state\<lparr>isSyncing := False, syncError := None,
        clients := [demo_client\<lparr>files := demo_indexed\<rparr>]\<rparr>"
    by (simp add: demo_synced_state_def run_cycle_fetched [OF demo_guard s] demo_changed
        syncAndPoll_synced_def replace_files_def demo_clients)
  then show ?thesis by (simp add: demo_state_eq)
qed

lemma demo_synced_capture:
  "capture demo_synced_state =
     \<lparr>selectedClient = Some (demo_client\<lparr>files := demo_indexed\<rparr>),
      cl_isGoogleDriveConnected = True, cl_fileSearchApiKey = ''k''\<rparr>"
  by (simp add: demo_synced_eq capture_def find_selected_def demo_client_def)

lemma demo_synced_guard: "activation_guard (capture demo_synced_state)"
  by (simp add: demo_synced_capture activation_guard_def demo_client_def truthy_opt_def
      truthy_def trim_demo)

theorem unchanged_snapshot_no_mutation_witness:
  "activation_guard (capture demo_synced_state) \<and>
   selectedClient (capture demo_synced_state) = Some (demo_client\<lparr>files := demo_indexed\<rparr>) \<and>
   fingerprint demo_indexed = fingerprint demo_remote \<and>
   clients (run_cycle (capture demo_synced_state) (Inr demo_remote) (Inl NonError)
       demo_synced_state) = [demo_client\<lparr>files := demo_indexed\<rparr>] \<and>
   activation_guard (capture demo_state) \<and>
   clients (run_cycle (capture demo_state) (Inr demo_remote) (Inr demo_indexed) demo_state) =
     [demo_client\<lparr>files := demo_indexed\<rparr>] \<and>
   clients (run_cycle
       (capture (run_cycle (capture demo_state) (Inr demo_remote) (Inr demo_indexed) demo_state))
       (Inr demo_remote) (Inl NonError)
       (run_cycle (capture demo_state) (Inr demo_remote) (Inr demo_indexed) demo_state)) =
     [demo_client\<lparr>files := demo_indexed\<rparr>]"
proof -
  have fp: "fingerprint demo_indexed = fingerprint demo_remote"
    by (simp add: fingerprint_def demo_indexed_def demo_remote_def)
  have s: "selectedClient (capture demo_synced_state) = Some (demo_client\<lparr>files := demo_indexed\<rparr>)"
    by (simp add: demo_synced_capture)
  have c: "clients demo_synced_state = [demo_client\<lparr>files := demo_indexed\<rparr>]"
    by (simp add: demo_synced_eq)
  note first = unchanged_snapshot_no_mutation [of "capture demo_synced_state"
      "demo_client\<lparr>files := demo_indexed\<rparr>" demo_remote "Inl NonError" demo_synced_state "''k''"
      "Inl NonError"]
  note second = unchanged_snapshot_no_mutation [of "capture demo_state" demo_client demo_remote
      "Inr demo_indexed" demo_state "''k''" "Inl NonError"]
  from first demo_synced_guard s fp c
  have one: "clients (run_cycle (capture demo_synced_state) (Inr demo_remote) (Inl NonError)
       demo_synced_state) = [demo_client\<lparr>files := demo_indexed\<rparr>]"
    by simp
  from second demo_guard fp
  have two: "clients (run_cycle (capture demo_synced_state) (Inr demo_remote) (Inl NonError)
       demo_synced_state) = clients demo_synced_state"
    by (simp add: demo_synced_state_def)
  from one two c demo_synced_guard s fp demo_guard show ?thesis
    by (simp add: demo_synced_state_def [symmetric])
qed

section \<open>Detected changes\<close>

text \<open>
  C3 (amended). For a cycle that passes the guard on state \<open>st\<close> and whose fetched
  snapshot \<open>R\<close> has a fingerprint different from that of the selected client's files,
  a change is detected: the cycle is suspended at the index call and every registry
  entry with the client's id has its files replaced by the placeholders of \<open>R\<close>, which
  differ from the files before; the registry has changed.
\<close>

theorem changed_snapshot_mutates:
  assumes "activation_guard (capture st)"
    and "selectedClient (capture st) = Some sc"
    and "fingerprint (files sc) \<noteq> fingerprint R"
  shows "\<exists>st1 st2.
           syncAndPoll_start (capture st) st = (st1, Some (AwaitFetch sc (fileSearchApiKey st))) \<and>
           syncAndPoll_fetched sc (fileSearchApiKey st) (Inr R) st1 =
             (st2, Some (AwaitSync sc (fileSearchApiKey st) R)) \<and>
           clients st2 = replace_files (client_id sc) (map placeholder R) (clients st) \<and>
           selectedClient (capture st2) = Some (sc\<lparr>files := map placeholder R\<rparr>) \<and>
           map placeholder R \<noteq> files sc \<and>
           clients st2 \<noteq> clients st"
proof -
  let ?st1 = "st\<lparr>isSyncing := True, syncError := None\<rparr>"
  let ?st2 = "st\<lparr>isSyncing := True, syncError := None,
                 clients := replace_files (client_id sc) (map placeholder R) (clients st)\<rparr>"
  have cd: "change_detected (files sc) R"
    using assms(3) by (simp add: change_detected_def)
  have a: "syncAndPoll_start (capture st) st = (?st1, Some (AwaitFetch sc (fileSearchApiKey st)))"
    using assms(1,2) by (simp add: syncAndPoll_start_def capture_def)
  have b: "syncAndPoll_fetched sc (fileSearchApiKey st) (Inr R) ?st1 =
             (?st2, Some (AwaitSync sc (fileSearchApiKey st) R))"
    using cd by (simp add: syncAndPoll_fetched_def)
  have c: "selectedClient (capture ?st2) = Some (sc\<lparr>files := map placeholder R\<rparr>)"
    by (simp add: capture_after_replace [OF assms(2)])
  have d: "map placeholder R \<noteq> files sc"
    by (rule placeholders_differ [OF cd])
  have e: "clients ?st2 \<noteq> clients st"
  proof
    assume "clients ?st2 = clients st"
    then have "selectedClient (capture ?st2) = selectedClient (capture st)"
      by (simp add: capture_def)
    with c assms(2) have "sc\<lparr>files := map placeholder R\<rparr> = sc" by simp
    then have "files (sc\<lparr>files := map placeholder R\<rparr>) = files sc" by simp
    with d show False by simp
  qed
  from a b c d e show ?thesis by (intro exI [of _ ?st1] exI [of _ ?st2]) simp
qed

theorem changed_snapshot_mutates_witness:
  "activation_guard (capture demo_state) \<and>
   selectedClient (capture demo_state) = Some demo_client \<and>
   fingerprint (files demo_client) \<noteq> fingerprint demo_remote \<and>
   (\<exists>st1 st2.
      syncAndPoll_start (capture demo_state) demo_state = (st1, Some (AwaitFetch demo_client ''k'')) \<and>
      syncAndPoll_fetched demo_client ''k'' (Inr demo_remote) st1 =
        (st2, Some (AwaitSync demo_client ''k'' demo_remote)) \<and>
      clients st2 = [demo_client\<lparr>files := map placeholder demo_remote\<rparr>] \<and>
      clients st2 \<noteq> [demo_client])"
proof -
  have s: "selectedClient (capture demo_state) = Some demo_client" by (simp add: demo_capture)
  have f: "fingerprint (files demo_client) \<noteq> fingerprint demo_remote"
    using demo_changed by (simp add: change_detected_def)
  have k: "fileSearchApiKey demo_state = ''k''" by (simp add: demo_state_eq)
  from changed_snapshot_mutates [OF demo_guard s f] demo_guard s f
  show ?thesis by (simp add: k demo_clients replace_files_def) blast
qed

section \<open>The query gateway\<close>

text \<open>
  C8. \<open>handleSearch\<close> answers with the fixed text \<open>No client selected.\<close> when the render
  has no selected client (in particular when \<open>selectedClientId\<close> is null), and otherwise
  with exactly what the index collaborator's \<open>query\<close> gives for the selected client,
  the query text and the credential, be it an answer or a failure.
\<close>

theorem handleSearch_gateway:
  "(selectedClient cl = None \<longrightarrow> handleSearch index_query cl query = Inr ''No client selected.'') \<and>
   (selectedClient cl = Some sc \<longrightarrow>
      handleSearch index_query cl query = index_query sc query (cl_fileSearchApiKey cl)) \<and>
   (selectedClientId st = None \<longrightarrow>
      handleSearch index_query (capture st) query = Inr ''No client selected.'') \<and>
   (selectedClientId st = Some i \<and> List.find (\<lambda>c. client_id c = i) (clients st) = Some sc \<longrightarrow>
      handleSearch index_query (capture st) query = index_query sc query (fileSearchApiKey st))"
  by (simp add: handleSearch_def capture_def find_selected_def)

theorem handleSearch_gateway_witness:
  "selectedClient (capture initial_state) = None \<and>
   handleSearch demo_query (capture initial_state) ''hello'' = Inr ''No client selected.'' \<and>
   selectedClient (capture demo_state) = Some demo_client \<and>
   handleSearch demo_query (capture demo_state) ''hello'' = Inr ''acme: hello'' \<and>
   selectedClientId initial_state = None \<and>
   selectedClientId demo_state = Some ''client_5'' \<and>
   List.find (\<lambda>c. client_id c = ''client_5'') (clients demo_state) = Some demo_client"
proof -
  have n: "selectedClient (capture initial_state) = None"
    by (simp add: capture_def initial_state_def find_selected_def)
  have s: "selectedClient (capture demo_state) = Some demo_client" by (simp add: demo_capture)
  have i: "selectedClientId initial_state = None" by (simp add: initial_state_def)
  have d: "selectedClientId demo_state = Some ''client_5''" by (simp add: demo_state_eq)
  have f: "List.find (\<lambda>c. client_id c = ''client_5'') (clients demo_state) = Some demo_client"
    by (simp add: demo_clients demo_client_def)
  have q: "demo_query demo_client ''hello'' ''k'' = Inr ''acme: hello''"
    by (simp add: demo_query_def demo_client_def)
  have k: "cl_fileSearchApiKey (capture demo_state) = ''k''" by (simp add: demo_capture)
  from handleSearch_gateway [of "capture initial_state" demo_query "''hello''" demo_client initial_state
      "''client_5''"]
    handleSearch_gateway [of "capture demo_state" demo_query "''hello''" demo_client demo_state
      "''client_5''"] n s i d f q k
  show ?thesis by simp
qed

section \<open>Stale cycles\<close>

lemma stale_before_eq:
  "stale_before =
     \<lparr>clients = [demo_client\<lparr>files := map placeholder demo_remote\<rparr>,
                 \<lparr>client_id = ''client_7'', name = ''beta'', files = [], apiKey = ''key_u2'',
                  googleDriveFolderUrl = None\<rparr>],
      selectedClientId = Some ''client_7'', fileSearchApiKey = ''k'',
      isGoogleDriveConnected = True, isSyncing = True, syncError = None\<rparr>"
proof -
  have a: "fst (syncAndPoll_start (capture demo_state) demo_state) =
      demo_state\<lparr>isSyncing := True, syncError := None\<rparr>"
    using demo_guard by (simp add: syncAndPoll_start_def demo_capture)
  have b: "fst (syncAndPoll_fetched demo_client ''k'' (Inr demo_remote)
        (demo_state\<lparr>isSyncing := True, syncError := None\<rparr>)) =
      demo_state\<lparr>isSyncing := True, syncError := None,
        clients := [demo_client\<lparr>files := map placeholder demo_remote\<rparr>]\<rparr>"
    using demo_changed by (simp add: syncAndPoll_fetched_def replace_files_def demo_clients)
  show ?thesis
    unfolding stale_before_def a b
    by (simp add: handleAddClient_def trim_demo truthy_def show_nat_digit demo_state_eq)
qed

text \<open>
  C1 (counterexample). The cycle of \<open>client_5\<close> is still suspended at the index call when
  \<open>client_7\<close> becomes the selected client; when the index answers, the files of
  \<open>client_5\<close> are replaced all the same.
\<close>

theorem stale_commit_counterexample:
  "selectedClientId stale_before = Some ''client_7'' \<and>
   map client_id (clients stale_before) = [''client_5'', ''client_7''] \<and>
   map files (clients stale_before) = [map placeholder demo_remote, []] \<and>
   map files (clients stale_after) = [demo_indexed, []] \<and>
   map files (clients stale_after) \<noteq> map files (clients stale_before)"
  by (simp add: stale_after_def syncAndPoll_synced_def replace_files_def stale_before_eq
      demo_client_def demo_indexed_def demo_remote_def placeholder_def)

text \<open>
  C1 (amended). When the index call of a cycle returns, the commit is applied whatever the
  selected client is at that moment: every registry entry whose id is the id captured
  by the cycle gets the returned files, every other entry is left as it is (so the
  registry is unchanged when no entry has that id), and \<open>selectedClientId\<close> and
  \<open>syncError\<close> keep their values. When the call fails, the registry is left as it is and
  \<open>syncError\<close> is set to the message of the failure.
\<close>

theorem commit_ignores_target:
  "length (clients (syncAndPoll_synced sc key driveFiles (Inr indexedFiles) st)) = length (clients st) \<and>
   (\<forall>k < length (clients st).
      clients (syncAndPoll_synced sc key driveFiles (Inr indexedFiles) st) ! k =
        (if client_id (clients st ! k) = client_id sc
         then (clients st ! k)\<lparr>files := indexedFiles\<rparr> else clients st ! k)) \<and>
   (client_id sc \<notin> client_id ` set (clients st) \<longrightarrow>
      clients (syncAndPoll_synced sc key driveFiles (Inr indexedFiles) st) = clients st) \<and>
   selectedClientId (syncAndPoll_synced sc key driveFiles (Inr indexedFiles) st) = selectedClientId st \<and>
   syncError (syncAndPoll_synced sc key driveFiles (Inr indexedFiles) st) = syncError st \<and>
   syncAndPoll_synced sc key driveFiles (Inl e) st =
     st\<lparr>syncError := Some (error_message e), isSyncing := False\<rparr>"
proof -
  have "client_id sc \<notin> client_id ` set cs \<Longrightarrow> replace_files (client_id sc) indexedFiles cs = cs"
    for cs
    by (induction cs) (auto simp: replace_files_def)
  then show ?thesis
    by (simp add: syncAndPoll_synced_def sync_failed_def) (simp add: replace_files_def)
qed

theorem commit_ignores_target_witness:
  "selectedClientId stale_before \<noteq> Some (client_id demo_client) \<and>
   length (clients stale_before) = 2 \<and>
   client_id (clients stale_before ! 0) = client_id demo_client \<and>
   clients stale_after ! 0 = (clients stale_before ! 0)\<lparr>files := demo_indexed\<rparr> \<and>
   client_id (clients stale_before ! 1) \<noteq> client_id demo_client \<and>
   clients stale_after ! 1 = clients stale_before ! 1 \<and>
   ''client_9'' \<notin> client_id ` set (clients stale_before) \<and>
   clients (syncAndPoll_synced (demo_client\<lparr>client_id := ''client_9''\<rparr>) ''k'' demo_remote
      (Inr demo_indexed) stale_before) = clients stale_before"
proof -
  note t = commit_ignores_target [of demo_client "''k''" demo_remote demo_indexed stale_before NonError]
  note u = commit_ignores_target [of "demo_client\<lparr>client_id := ''client_9''\<rparr>" "''k''" demo_remote
      demo_indexed stale_before NonError]
  have l: "length (clients stale_before) = 2" by (simp add: stale_before_eq)
  have i0: "client_id (clients stale_before ! 0) = client_id demo_client"
    by (simp add: stale_before_eq)
  have i1: "client_id (clients stale_before ! 1) \<noteq> client_id demo_client"
    by (simp add: stale_before_eq demo_client_def)
  have s: "selectedClientId stale_before \<noteq> Some (client_id demo_client)"
    by (simp add: stale_before_eq demo_client_def)
  have n: "''client_9'' \<notin> client_id ` set (clients stale_before)"
    by (simp add: stale_before_eq demo_client_def)
  from t l i0 have a0: "clients stale_after ! 0 = (clients stale_before ! 0)\<lparr>files := demo_indexed\<rparr>"
    by (simp add: stale_after_def)
  from t l i1 have a1: "clients stale_after ! 1 = clients stale_before ! 1"
    by (simp add: stale_after_def)
  from u n have a2: "clients (syncAndPoll_synced (demo_client\<lparr>client_id := ''client_9''\<rparr>) ''k''
      demo_remote (Inr demo_indexed) stale_before) = clients stale_before"
    by simp
  from l i0 i1 s n a0 a1 a2 show ?thesis by simp
qed

section \<open>The periodic trigger\<close>

lemma start_cycle_guard:
  assumes "activation_guard cl" "selectedClient cl = Some sc"
  shows "start_cycle cl rt =
           rt\<lparr>app := (app rt)\<lparr>isSyncing := True, syncError := None\<rparr>,
              inflight := inflight rt @ [AwaitFetch sc (cl_fileSearchApiKey cl)]\<rparr>"
  using assms by (simp add: start_cycle_def syncAndPoll_start_def)

lemma start_cycle_no_guard:
  assumes "\<not> activation_guard cl"
  shows "start_cycle cl rt = rt\<lparr>app := (app rt)\<lparr>isSyncing := False\<rparr>\<rparr>"
  using assms by (simp add: start_cycle_def syncAndPoll_start_def split: option.splits)

lemma tick_timer: "timer (tick rt) = timer rt"
  by (cases "timer rt")
    (auto simp: tick_def start_cycle_def syncAndPoll_start_def split: option.splits prod.splits)

lemma ticks_timer: "timer ((tick ^^ n) rt) = timer rt"
  by (induction n) (simp_all add: tick_timer)

lemma ticks_inflight:
  assumes "timer rt = Some cl" "activation_guard cl" "selectedClient cl = Some sc"
  shows "inflight ((tick ^^ n) rt) = inflight rt @ replicate n (AwaitFetch sc (cl_fileSearchApiKey cl))"
proof (induction n)
  case 0
  show ?case by simp
next
  case (Suc n)
  have "timer ((tick ^^ n) rt) = Some cl"
    by (simp add: ticks_timer assms(1))
  then have "inflight (tick ((tick ^^ n) rt)) =
      inflight ((tick ^^ n) rt) @ [AwaitFetch sc (cl_fileSearchApiKey cl)]"
    by (simp add: tick_def start_cycle_guard [OF assms(2,3)])
  with Suc show ?case
    by (simp add: replicate_append_same)
qed

lemma demo_run_effect:
  "run_effect demo_runtime =
     \<lparr>app = demo_state\<lparr>isSyncing := True, syncError := None\<rparr>,
      timer = Some (capture demo_state), inflight = [AwaitFetch demo_client ''k'']\<rparr>"
proof -
  have s: "selectedClient (capture demo_state) = Some demo_client" by (simp add: demo_capture)
  have k: "cl_fileSearchApiKey (capture demo_state) = ''k''" by (simp add: demo_capture)
  have u: "truthy_opt (googleDriveFolderUrl demo_client)"
    by (simp add: demo_client_def truthy_opt_def truthy_def)
  show ?thesis
    by (simp add: run_effect_def demo_runtime_def s u k start_cycle_guard [OF demo_guard s])
qed

text \<open>
  C2 (counterexample). The effect starts a cycle for \<open>client_5\<close> and arms the interval; the
  interval fires while that cycle still waits for the listing: a second cycle for the
  same client is started and both are in flight.
\<close>

theorem single_flight_counterexample:
  "inflight (run_effect demo_runtime) = [AwaitFetch demo_client ''k''] \<and>
   inflight (tick (run_effect demo_runtime)) =
     [AwaitFetch demo_client ''k'', AwaitFetch demo_client ''k''] \<and>
   map target_of (inflight (tick (run_effect demo_runtime))) = [''client_5'', ''client_5'']"
proof -
  have s: "selectedClient (capture demo_state) = Some demo_client" by (simp add: demo_capture)
  have k: "cl_fileSearchApiKey (capture demo_state) = ''k''" by (simp add: demo_capture)
  have "inflight (tick (run_effect demo_runtime)) =
     [AwaitFetch demo_client ''k'', AwaitFetch demo_client ''k'']"
    by (simp add: demo_run_effect tick_def start_cycle_guard [OF demo_guard s] k)
  then show ?thesis
    by (simp add: demo_run_effect target_of_def demo_client_def)
qed

text \<open>
  C2 (amended). The interval calls the closure it was armed with; each call whose
  activation guard passes starts a new cycle, whether or not earlier cycles for the same
  client are still outstanding: after \<open>n\<close> ticks during which nothing completes, \<open>n\<close>
  more cycles are in flight. A tick whose guard fails starts no cycle and clears
  \<open>isSyncing\<close>; with no interval armed a tick does nothing.
\<close>

theorem tick_starts_cycle:
  "(timer rt = Some cl \<and> activation_guard cl \<and> selectedClient cl = Some sc \<longrightarrow>
      inflight ((tick ^^ n) rt) =
        inflight rt @ replicate n (AwaitFetch sc (cl_fileSearchApiKey cl))) \<and>
   (timer rt = Some cl \<and> \<not> activation_guard cl \<longrightarrow>
      inflight (tick rt) = inflight rt \<and> isSyncing (app (tick rt)) = False) \<and>
   (timer rt = None \<longrightarrow> tick rt = rt)"
  using ticks_inflight [of rt cl sc n]
  by (simp add: tick_def start_cycle_no_guard)

theorem tick_starts_cycle_witness:
  "timer (run_effect demo_runtime) = Some (capture demo_state) \<and>
   activation_guard (capture demo_state) \<and>
   selectedClient (capture demo_state) = Some demo_client \<and>
   inflight ((tick ^^ 3) (run_effect demo_runtime)) =
     [AwaitFetch demo_client ''k'', AwaitFetch demo_client ''k'', AwaitFetch demo_client ''k'',
      AwaitFetch demo_client ''k''] \<and>
   timer (demo_runtime\<lparr>timer := Some (capture initial_state)\<rparr>) = Some (capture initial_state) \<and>
   \<not> activation_guard (capture initial_state) \<and>
   inflight (tick (demo_runtime\<lparr>timer := Some (capture initial_state)\<rparr>)) = [] \<and>
   timer demo_runtime = None \<and> tick demo_runtime = demo_runtime"
proof -
  have s: "selectedClient (capture demo_state) = Some demo_client" by (simp add: demo_capture)
  have k: "cl_fileSearchApiKey (capture demo_state) = ''k''" by (simp add: demo_capture)
  have t: "timer (run_effect demo_runtime) = Some (capture demo_state)"
    by (simp add: demo_run_effect)
  have i: "inflight (run_effect demo_runtime) = [AwaitFetch demo_client ''k'']"
    by (simp add: demo_run_effect)
  have ng: "\<not> activation_guard (capture initial_state)"
    by (simp add: activation_guard_def capture_def initial_state_def find_selected_def)
  have r3: "replicate 3 (AwaitFetch demo_client ''k'') =
      [AwaitFetch demo_client ''k'', AwaitFetch demo_client ''k'', AwaitFetch demo_client ''k'']"
    by (simp add: numeral_3_eq_3)
  note a = tick_starts_cycle [of "run_effect demo_runtime" "capture demo_state" demo_client 3]
  note b = tick_starts_cycle [of "demo_runtime\<lparr>timer := Some (capture initial_state)\<rparr>"
      "capture initial_state" demo_client 3]
  note c = tick_starts_cycle [of demo_runtime "capture demo_state" demo_client 3]
  from a t demo_guard s have a': "inflight ((tick ^^ 3) (run_effect demo_runtime)) =
     [AwaitFetch demo_client ''k'', AwaitFetch demo_client ''k'', AwaitFetch demo_client ''k'',
      AwaitFetch demo_client ''k'']"
    by (simp only: i k r3) simp
  from b ng have b': "inflight (tick (demo_runtime\<lparr>timer := Some (capture initial_state)\<rparr>)) = []"
    by (simp add: demo_runtime_def)
  have n: "timer demo_runtime = None" by (simp add: demo_runtime_def)
  from c n have c': "tick demo_runtime = demo_runtime" by simp
  from a' b' c' t demo_guard s ng n show ?thesis by simp
qed

section \<open>What the fingerprint tells apart\<close>

lemma collide_state_eq:
  "collide_state =
     \<lparr>clients = [demo_client\<lparr>files := collide_stored\<rparr>], selectedClientId = Some ''client_5'',
      fileSearchApiKey = ''k'', isGoogleDriveConnected = True, isSyncing = False,
      syncError = None\<rparr>"
proof -
  have s: "selectedClient (capture demo_state) = Some demo_client" by (simp add: demo_capture)
  have c: "change_detected (files demo_client) [\<lparr>file_id = ''a'', content = ''bc''\<rparr>]"
    by (simp add: change_detected_def fingerprint_def demo_client_def)
  have "collide_state =
      demo_state\<lparr>isSyncing := False, syncError := None,
        clients := [demo_client\<lparr>files := collide_stored\<rparr>]\<rparr>"
    by (simp add: collide_state_def run_cycle_fetched [OF demo_guard s] c
        syncAndPoll_synced_def replace_files_def demo_clients)
  then show ?thesis by (simp add: demo_state_eq)
qed

lemma collide_guard: "activation_guard (capture collide_state)"
  by (simp add: collide_state_eq capture_def find_selected_def activation_guard_def
      demo_client_def truthy_opt_def truthy_def trim_demo)

lemma collide_selected:
  "selectedClient (capture collide_state) = Some (demo_client\<lparr>files := collide_stored\<rparr>)"
  by (simp add: collide_state_eq capture_def find_selected_def demo_client_def)

text \<open>
  C3 (counterexample). The client's stored files are one file with id \<open>a\<close> and content
  \<open>bc\<close>; the remote snapshot is one file with id \<open>ab\<close> and content \<open>c\<close>. The pairs
  differ, both concatenations are \<open>abc\<close>, no change is detected and the cycle leaves the
  registry as it is.
\<close>

theorem collision_counterexample:
  "map files (clients collide_state) = [collide_stored] \<and>
   id_content_pairs collide_stored \<noteq> id_content_pairs collide_remote \<and>
   activation_guard (capture collide_state) \<and>
   \<not> change_detected collide_stored collide_remote \<and>
   clients (run_cycle (capture collide_state) (Inr collide_remote) (Inr []) collide_state) =
     clients collide_state"
proof -
  have n: "\<not> change_detected (files (demo_client\<lparr>files := collide_stored\<rparr>)) collide_remote"
    by (simp add: change_detected_def fingerprint_def collide_stored_def collide_remote_def)
  have r: "clients (run_cycle (capture collide_state) (Inr collide_remote) (Inr []) collide_state) =
     clients collide_state"
    using n by (simp add: run_cycle_fetched [OF collide_guard collide_selected])
  have p: "id_content_pairs collide_stored \<noteq> id_content_pairs collide_remote"
    by (simp add: id_content_pairs_def collide_stored_def collide_remote_def)
  have f: "map files (clients collide_state) = [collide_stored]"
    by (simp add: collide_state_eq)
  from n r p f collide_guard show ?thesis by simp
qed

lemma fingerprint_append: "fingerprint (xs @ ys) = fingerprint xs @ fingerprint ys"
  by (simp add: fingerprint_def)

lemma fingerprint_Cons: "fingerprint (f # fs) = file_id f @ content f @ fingerprint fs"
  by (simp add: fingerprint_def)

lemma fingerprint_pairs:
  "fingerprint fs = concat (map (\<lambda>p. fst p @ snd p) (id_content_pairs fs))"
  by (simp add: fingerprint_def id_content_pairs_def comp_def)

text \<open>
  C4 (counterexample). The stored files are \<open>(a, ba)\<close>, \<open>(ab, a)\<close>; the remote snapshot
  lists the same two pairs in the other order. Both concatenations are \<open>abaaba\<close>, and
  no change is detected.
\<close>

theorem reorder_counterexample:
  "mset (id_content_pairs reorder_stored) = mset (id_content_pairs reorder_remote) \<and>
   id_content_pairs reorder_stored \<noteq> id_content_pairs reorder_remote \<and>
   fingerprint reorder_stored = fingerprint reorder_remote \<and>
   \<not> change_detected reorder_stored reorder_remote"
  by (simp add: id_content_pairs_def reorder_stored_def reorder_remote_def fingerprint_def
      change_detected_def)

lemma first_difference:
  assumes "length xs = length ys" and "map f xs \<noteq> map g ys"
  shows "\<exists>ps a r1 qs b r2.
           xs = ps @ a # r1 \<and> ys = qs @ b # r2 \<and> map f ps = map g qs \<and> f a \<noteq> g b"
  using assms
proof (induction xs ys rule: list_induct2)
  case Nil
  then show ?case by simp
next
  case (Cons x xs y ys)
  show ?case
  proof (cases "f x = g y")
    case False
    then have "x # xs = [] @ x # xs \<and> y # ys = [] @ y # ys \<and> map f [] = map g [] \<and> f x \<noteq> g y"
      by simp
    then show ?thesis by blast
  next
    case True
    with Cons.prems have "map f xs \<noteq> map g ys" by simp
    with Cons.IH obtain ps a r1 qs b r2 where
      d: "xs = ps @ a # r1" "ys = qs @ b # r2" "map f ps = map g qs" "f a \<noteq> g b"
      by blast
    from d True have "x # xs = (x # ps) @ a # r1 \<and> y # ys = (y # qs) @ b # r2 \<and>
        map f (x # ps) = map g (y # qs) \<and> f a \<noteq> g b"
      by simp
    then show ?thesis by blast
  qed
qed

lemma incomparable_append:
  assumes "\<not> prefix p q" and "\<not> prefix q p"
  shows "p @ u \<noteq> q @ v"
proof
  assume "p @ u = q @ v"
  then have "prefix p q \<or> prefix q p"
    by (auto simp: append_eq_append_conv2 prefix_def)
  with assms show False by simp
qed

text \<open>
  C4 (amended). The fingerprint is the concatenation, in snapshot order, of each file's
  id followed by its content. Two snapshots that hold the same multiset of (id, content)
  pairs in different orders agree on the pairs of a common prefix and then hold two
  files with different pairs. From there on, a change is detected exactly when the
  two concatenations from these files to the end differ; this is so whenever neither
  file's id+content string is a prefix of the other's (in particular when the two
  strings are different and of one length, as \<open>1a\<close> and \<open>2b\<close> in the spec's example).
\<close>

theorem first_difference_detected:
  "(id_content_pairs ps = id_content_pairs qs \<longrightarrow>
      (change_detected (ps @ a # r1) (qs @ b # r2) \<longleftrightarrow>
         (file_id a @ content a) @ fingerprint r1 \<noteq> (file_id b @ content b) @ fingerprint r2) \<and>
      (\<not> prefix (file_id a @ content a) (file_id b @ content b) \<and>
       \<not> prefix (file_id b @ content b) (file_id a @ content a) \<longrightarrow>
         fingerprint (ps @ a # r1) \<noteq> fingerprint (qs @ b # r2) \<and>
         change_detected (ps @ a # r1) (qs @ b # r2))) \<and>
   (mset (id_content_pairs stored) = mset (id_content_pairs remote) \<and>
    id_content_pairs stored \<noteq> id_content_pairs remote \<longrightarrow>
      (\<exists>ps a r1 qs b r2.
         stored = ps @ a # r1 \<and> remote = qs @ b # r2 \<and>
         id_content_pairs ps = id_content_pairs qs \<and>
         (file_id a, content a) \<noteq> (file_id b, content b)))"
proof (intro conjI impI)
  assume pre: "id_content_pairs ps = id_content_pairs qs"
  then have fp: "fingerprint ps = fingerprint qs"
    by (simp add: fingerprint_pairs)
  show iff: "change_detected (ps @ a # r1) (qs @ b # r2) \<longleftrightarrow>
      (file_id a @ content a) @ fingerprint r1 \<noteq> (file_id b @ content b) @ fingerprint r2"
    by (simp add: change_detected_def fingerprint_append fingerprint_Cons fp)
  assume inc: "\<not> prefix (file_id a @ content a) (file_id b @ content b) \<and>
       \<not> prefix (file_id b @ content b) (file_id a @ content a)"
  then have ne: "(file_id a @ content a) @ fingerprint r1 \<noteq> (file_id b @ content b) @ fingerprint r2"
    using incomparable_append by blast
  with iff show "change_detected (ps @ a # r1) (qs @ b # r2)" by simp
  then show "fingerprint (ps @ a # r1) \<noteq> fingerprint (qs @ b # r2)"
    by (simp add: change_detected_def)
next
  assume h: "mset (id_content_pairs stored) = mset (id_content_pairs remote) \<and>
    id_content_pairs stored \<noteq> id_content_pairs remote"
  then have "length (id_content_pairs stored) = length (id_content_pairs remote)"
    using mset_eq_length by blast
  then have l: "length stored = length remote"
    by (simp add: id_content_pairs_def)
  from h have "map (\<lambda>f. (file_id f, content f)) stored \<noteq> map (\<lambda>f. (file_id f, content f)) remote"
    by (simp add: id_content_pairs_def)
  from first_difference [OF l this]
  show "\<exists>ps a r1 qs b r2.
         stored = ps @ a # r1 \<and> remote = qs @ b # r2 \<and>
         id_content_pairs ps = id_content_pairs qs \<and>
         (file_id a, content a) \<noteq> (file_id b, content b)"
    by (simp add: id_content_pairs_def)
qed

theorem first_difference_detected_witness:
  "mset (id_content_pairs swapped_stored) = mset (id_content_pairs swapped_remote) \<and>
   id_content_pairs swapped_stored \<noteq> id_content_pairs swapped_remote \<and>
   id_content_pairs (take 1 swapped_stored) = id_content_pairs (take 1 swapped_remote) \<and>
   \<not> prefix ''1a'' ''2bb'' \<and> \<not> prefix ''2bb'' ''1a'' \<and>
   fingerprint swapped_stored = ''0x1a2bb'' \<and>
   fingerprint swapped_remote = ''0x2bb1a'' \<and>
   change_detected swapped_stored swapped_remote \<and>
   (\<exists>ps a r1 qs b r2.
      swapped_stored = ps @ a # r1 \<and> swapped_remote = qs @ b # r2 \<and>
      id_content_pairs ps = id_content_pairs qs \<and>
      (file_id a, content a) \<noteq> (file_id b, content b))"
proof -
  let ?ps = "[\<lparr>file_id = ''0'', content = ''x'', summary = ''s0'', status = Indexed\<rparr>]"
  let ?a = "\<lparr>file_id = ''1'', content = ''a'', summary = ''s1'', status = Indexed\<rparr>"
  let ?r1 = "[\<lparr>file_id = ''2'', content = ''bb'', summary = ''s2'', status = Indexed\<rparr>]"
  let ?qs = "[\<lparr>file_id = ''0'', content = ''x''\<rparr>]"
  let ?b = "\<lparr>file_id = ''2'', content = ''bb''\<rparr>"
  let ?r2 = "[\<lparr>file_id = ''1'', content = ''a''\<rparr>]"
  have x: "swapped_stored = ?ps @ ?a # ?r1" by (simp add: swapped_stored_def)
  have y: "swapped_remote = ?qs @ ?b # ?r2" by (simp add: swapped_remote_def)
  have e: "id_content_pairs ?ps = id_content_pairs ?qs" by (simp add: id_content_pairs_def)
  have e': "id_content_pairs (take 1 swapped_stored) = id_content_pairs (take 1 swapped_remote)"
    by (simp add: id_content_pairs_def swapped_stored_def swapped_remote_def)
  have i: "\<not> prefix ''1a'' ''2bb''" "\<not> prefix ''2bb'' ''1a''" by simp_all
  have m: "mset (id_content_pairs swapped_stored) = mset (id_content_pairs swapped_remote)"
    by (simp add: id_content_pairs_def swapped_stored_def swapped_remote_def)
  have n: "id_content_pairs swapped_stored \<noteq> id_content_pairs swapped_remote"
    by (simp add: id_content_pairs_def swapped_stored_def swapped_remote_def)
  have f: "fingerprint swapped_stored = ''0x1a2bb''" "fingerprint swapped_remote = ''0x2bb1a''"
    by (simp_all add: fingerprint_def swapped_stored_def swapped_remote_def)
  note t = first_difference_detected [of ?ps ?qs ?a ?r1 ?b ?r2 swapped_stored swapped_remote]
  from t e i have c: "change_detected (?ps @ ?a # ?r1) (?qs @ ?b # ?r2)" by simp
  then have c': "change_detected swapped_stored swapped_remote" by (simp only: x y)
  from t m n have d: "\<exists>ps a r1 qs b r2.
      swapped_stored = ps @ a # r1 \<and> swapped_remote = qs @ b # r2 \<and>
      id_content_pairs ps = id_content_pairs qs \<and>
      (file_id a, content a) \<noteq> (file_id b, content b)"
    by blast
  from m n e' i f c' d show ?thesis by blast
qed

section \<open>Client ids\<close>

lemma add_clients_Cons:
  "add_clients (op # ops) st =
     add_clients ops (handleAddClient (fst op) (fst (snd op)) (snd (snd op)) st)"
  by (simp add: add_clients_def split_beta)

lemma add_clients_ids:
  "map client_id (clients (add_clients ops st)) =
     map client_id (clients st) @
     map (\<lambda>op. ''client_'' @ show_nat (op_time op)) (filter effective ops)"
proof (induction ops arbitrary: st)
  case Nil
  show ?case by (simp add: add_clients_def)
next
  case (Cons op ops)
  show ?case
    by (simp add: add_clients_Cons Cons.IH handleAddClient_def effective_def op_time_def
        split_beta Let_def)
qed

text \<open>
  C9 (counterexample). Two clients added at the same clock reading get the same id.
\<close>

theorem same_clock_counterexample:
  "map client_id (clients (add_clients [(''acme'', 5, ''u1''), (''beta'', 5, ''u2'')] initial_state)) =
     [''client_5'', ''client_5''] \<and>
   \<not> distinct (map client_id
        (clients (add_clients [(''acme'', 5, ''u1''), (''beta'', 5, ''u2'')] initial_state)))"
  by (simp add: add_clients_ids initial_state_def effective_def op_time_def trim_demo truthy_def
      show_nat_digit)

text \<open>
  C9 (amended). After a sequence of add-client operations on the empty registry the ids
  are pairwise distinct exactly when the operations that add a client (those whose name
  is not blank) read pairwise distinct values of the clock; in particular they are
  distinct whenever no two clients are added within the same millisecond.
\<close>

theorem ids_distinct_iff_clock_distinct:
  "distinct (map client_id (clients (add_clients ops initial_state))) \<longleftrightarrow>
   distinct (map op_time (filter effective ops))"
proof -
  have inj: "inj (\<lambda>n. ''client_'' @ show_nat n)"
    by (rule injI) (simp add: show_nat_inj)
  have "map client_id (clients (add_clients ops initial_state)) =
      map (\<lambda>n. ''client_'' @ show_nat n) (map op_time (filter effective ops))"
    by (simp add: add_clients_ids initial_state_def comp_def)
  then show ?thesis
    by (simp only: distinct_map) (use inj in \<open>auto intro: inj_on_subset\<close>)
qed

theorem ids_distinct_iff_clock_distinct_witness:
  "distinct (map op_time (filter effective [(''acme'', 5, ''u1''), (''  '', 5, ''u0''), (''beta'', 7, ''u2'')])) \<and>
   map client_id (clients (add_clients [(''acme'', 5, ''u1''), (''  '', 5, ''u0''), (''beta'', 7, ''u2'')]
      initial_state)) = [''client_5'', ''client_7''] \<and>
   distinct (map client_id (clients (add_clients
      [(''acme'', 5, ''u1''), (''  '', 5, ''u0''), (''beta'', 7, ''u2'')] initial_state)))"
proof -
  have b: "trim ''  '' = []" by (simp add: trim_def js_whitespace_def)
  have d: "distinct (map op_time (filter effective
      [(''acme'', 5, ''u1''), (''  '', 5, ''u0''), (''beta'', 7, ''u2'')]))"
    by (simp add: effective_def op_time_def trim_demo b truthy_def)
  have m: "map client_id (clients (add_clients
      [(''acme'', 5, ''u1''), (''  '', 5, ''u0''), (''beta'', 7, ''u2'')] initial_state)) =
      [''client_5'', ''client_7'']"
    by (simp add: add_clients_ids initial_state_def effective_def op_time_def trim_demo b truthy_def
        show_nat_digit)
  from ids_distinct_iff_clock_distinct [of "[(''acme'', 5, ''u1''), (''  '', 5, ''u0''), (''beta'', 7, ''u2'')]"] d m
  show ?thesis by simp
qed

end
